theory Spec2Isabelle
  imports Complex_Main "HOL-Library.Word" "HOL-Library.Sublist"
begin

section \<open>JavaScript strings\<close>

text \<open>
  A JavaScript string is a sequence of UTF-16 code units, so the chat texts are lists of
  16-bit words. \<open>lit\<close> embeds an ASCII literal of the source, one code unit per character.
\<close>

type_synonym jsstring = "16 word list"

definition lit :: "string \<Rightarrow> jsstring" where
  "lit cs = map (\<lambda>c. of_nat (of_char c)) cs"

text \<open>
  \<open>String.prototype.trim\<close> removes the code units of the ECMAScript productions WhiteSpace
  (TAB, VT, FF, ZWNBSP and the Unicode category Zs) and LineTerminator (LF, CR, LS, PS)
  from both ends of the string.
\<close>

definition is_ws :: "16 word \<Rightarrow> bool" where
  "is_ws c = (c \<in> {0x0009, 0x000A, 0x000B, 0x000C, 0x000D, 0x0020, 0x00A0, 0x1680,
                    0x2000, 0x2001, 0x2002, 0x2003, 0x2004, 0x2005, 0x2006, 0x2007,
                    0x2008, 0x2009, 0x200A, 0x2028, 0x2029, 0x202F, 0x205F, 0x3000,
                    0xFEFF})"

definition trim :: "jsstring \<Rightarrow> jsstring" where
  "trim s = rev (dropWhile is_ws (rev (dropWhile is_ws s)))"

text \<open>ToBoolean on a string: only the empty string is falsy.\<close>

definition truthy_string :: "jsstring \<Rightarrow> bool" where
  "truthy_string s = (s \<noteq> [])"


section \<open>The chat page: \<open>FitnessAssistant\<close>\<close>

text \<open>
  The component state of \<open>FitnessAssistant\<close>: the two \<open>useState\<close> cells \<open>messages\<close> and
  \<open>userInput\<close>, and the callbacks handed to \<open>setTimeout\<close> that have not run yet. Such a
  callback is a closure over the \<open>userInput\<close> and the \<open>timestamp\<close> of the call of
  \<open>handleSend\<close> that created it; the record \<open>pending\<close> holds the two captured values.
\<close>

datatype sender = User | Bot

record message =
  type :: sender
  content :: jsstring
  timestamp :: jsstring

record pending =
  captured_input :: jsstring
  captured_timestamp :: jsstring

record chat =
  messages :: "message list"
  userInput :: jsstring
  timers :: "pending list"

definition initial_chat :: chat where
  "initial_chat = \<lparr>messages = [], userInput = [], timers = []\<rparr>"

text \<open>
  The template literal of the reply. Its apostrophe is the code unit U+2019 (RIGHT SINGLE
  QUOTATION MARK) in the source file, and the quotes around the text are U+0022.
\<close>

definition reply :: "jsstring \<Rightarrow> jsstring" where
  "reply text = lit ''Here'' @ [0x2019] @ lit ''s an exercise tailored for '' @ [0x0022]
                 @ text @ [0x0022] @ lit ''!''"

text \<open>
  The reply text as the specification writes it, with the ASCII apostrophe U+0027 where
  the source has U+2019. It is here to be compared with \<open>reply\<close>.
\<close>

definition ascii_reply :: "jsstring \<Rightarrow> jsstring" where
  "ascii_reply text = lit ''Here'' @ [0x0027] @ lit ''s an exercise tailored for '' @ [0x0022]
                 @ text @ [0x0022] @ lit ''!''"

text \<open>
  The callback of \<open>setTimeout\<close>: \<open>setMessages((prev) => [...prev, {type: "bot", ...}])\<close>.
\<close>

definition deferred :: "pending \<Rightarrow> chat \<Rightarrow> chat" where
  "deferred p s =
     s\<lparr>messages := messages s @
          [\<lparr>type = Bot, content = reply (captured_input p),
            timestamp = captured_timestamp p\<rparr>]\<rparr>"

text \<open>
  \<open>handleSend\<close>. The argument \<open>now\<close> is what
  \<open>new Date().toLocaleTimeString([], {hour: "2-digit", minute: "2-digit"})\<close> returns at
  the call. The early \<open>return\<close> leaves the state as it is.
\<close>

definition handleSend :: "jsstring \<Rightarrow> chat \<Rightarrow> chat" where
  "handleSend now s =
     (if \<not> truthy_string (trim (userInput s)) then s
      else s\<lparr>messages := messages s @
                 [\<lparr>type = User, content = userInput s, timestamp = now\<rparr>],
               timers := timers s @
                 [\<lparr>captured_input = userInput s, captured_timestamp = now\<rparr>],
               userInput := []\<rparr>)"

text \<open>
  Every way the state of the page changes: typing (\<open>onChange\<close> sets \<open>userInput\<close>), the Send
  button, a key in the input field (\<open>handleKeyDown\<close> calls \<open>handleSend\<close> on \<open>Enter\<close> only),
  and the expiry of a pending timer, which runs its callback and drops it from the
  pending ones. Timers are named by their position among the pending ones, so any
  order of expiry can be written down.
\<close>

definition handleKeyDown :: "jsstring \<Rightarrow> jsstring \<Rightarrow> chat \<Rightarrow> chat" where
  "handleKeyDown key now s = (if key = lit ''Enter'' then handleSend now s else s)"

datatype event =
    Change jsstring
  | Click jsstring
  | KeyDown jsstring jsstring
  | Expire nat

fun step :: "chat \<Rightarrow> event \<Rightarrow> chat" where
  "step s (Change v) = s\<lparr>userInput := v\<rparr>"
| "step s (Click now) = handleSend now s"
| "step s (KeyDown key now) = handleKeyDown key now s"
| "step s (Expire i) =
     (if i < length (timers s)
      then deferred (timers s ! i) (s\<lparr>timers := take i (timers s) @ drop (Suc i) (timers s)\<rparr>)
      else s)"

definition run :: "chat \<Rightarrow> event list \<Rightarrow> chat" where
  "run s evs = foldl step s evs"


section \<open>The exercise cards: \<open>StartTherapy\<close>\<close>

text \<open>
  \<open>flippedCards\<close> is an object from card indices to booleans, empty at first. The indices
  are the positions that \<open>exercises.map\<close> passes to \<open>handleFlip\<close>, natural numbers. Reading
  a missing key gives \<open>undefined\<close>, which is falsy: \<open>flipped\<close> is the truth value that both
  \<open>!prev[idx]\<close> and the class name \<open>flippedCards[idx] ? "rotate-y-180" : ""\<close> test.
\<close>

type_synonym flippedCards = "nat \<rightharpoonup> bool"

definition flipped :: "flippedCards \<Rightarrow> nat \<Rightarrow> bool" where
  "flipped cards idx = (case cards idx of None \<Rightarrow> False | Some b \<Rightarrow> b)"

definition handleFlip :: "nat \<Rightarrow> flippedCards \<Rightarrow> flippedCards" where
  "handleFlip idx prev = prev(idx \<mapsto> \<not> flipped prev idx)"


section \<open>JavaScript numbers\<close>

text \<open>
  A JavaScript number is an IEEE 754 binary64 value. \<open>Finite s m e\<close> stands for
  \<open>(-1)\<^sup>s \<cdot> m \<cdot> 2\<^sup>e\<close>, kept with an odd \<open>m\<close> (or \<open>m = 0\<close>, \<open>e = 0\<close> for the two zeros), so
  that equal values are equal terms.
\<close>

datatype number = NaN | Infinity bool | Finite bool nat int

fun bit_length :: "nat \<Rightarrow> nat" where
  "bit_length n = (if n = 0 then 0 else Suc (bit_length (n div 2)))"

fun strip :: "nat \<Rightarrow> int \<Rightarrow> nat \<times> int" where
  "strip m e = (if m = 0 then (0, 0) else if even m then strip (m div 2) (e + 1) else (m, e))"

declare bit_length.simps [simp del]
declare strip.simps [simp del]

definition finite_or_infinity :: "bool \<Rightarrow> nat \<Rightarrow> int \<Rightarrow> number" where
  "finite_or_infinity s m e =
     (if int (bit_length m) + e > 1024 then Infinity s
      else case strip m e of (m', e') \<Rightarrow> Finite s m' e')"

text \<open>
  \<open>round_to_double s m e\<close> is the binary64 value nearest to \<open>(-1)\<^sup>s \<cdot> m \<cdot> 2\<^sup>e\<close>, ties to
  the even significand: the significand keeps 53 bits, the exponent of its last bit
  is at least -1074 (subnormal range), and a magnitude of \<open>2\<^sup>1\<^sup>0\<^sup>2\<^sup>4\<close> or more is infinite.
\<close>

definition round_to_double :: "bool \<Rightarrow> nat \<Rightarrow> int \<Rightarrow> number" where
  "round_to_double s m e =
     (let t = max (e + int (bit_length m) - 53) (- 1074) in
      if t \<le> e then finite_or_infinity s m e
      else
        let sh = nat (t - e);
            q = m div 2 ^ sh;
            r = m mod 2 ^ sh;
            m' = (if 2 * r > 2 ^ sh \<or> (2 * r = 2 ^ sh \<and> odd q) then q + 1 else q)
        in finite_or_infinity s m' t)"

text \<open>The operator \<open>*\<close> on numbers (Number::multiply of ECMAScript).\<close>

fun js_mul :: "number \<Rightarrow> number \<Rightarrow> number" where
  "js_mul NaN y = NaN"
| "js_mul x NaN = NaN"
| "js_mul (Infinity s) (Infinity t) = Infinity (s \<noteq> t)"
| "js_mul (Infinity s) (Finite t n f) = (if n = 0 then NaN else Infinity (s \<noteq> t))"
| "js_mul (Finite s m e) (Infinity t) = (if m = 0 then NaN else Infinity (s \<noteq> t))"
| "js_mul (Finite s m e) (Finite t n f) = round_to_double (s \<noteq> t) (m * n) (e + f)"

text \<open>ToBoolean on a number: \<open>+0\<close>, \<open>-0\<close> and \<open>NaN\<close> are falsy.\<close>

fun truthy_number :: "number \<Rightarrow> bool" where
  "truthy_number NaN = False"
| "truthy_number (Infinity s) = True"
| "truthy_number (Finite s m e) = (m \<noteq> 0)"

text \<open>The number that an integer denotes, and the exact value of a finite number (\<open>NaN\<close> and
  the infinities have none).\<close>

definition number_of_int :: "int \<Rightarrow> number" where
  "number_of_int i = round_to_double (i < 0) (nat \<bar>i\<bar>) 0"

fun valof :: "number \<Rightarrow> rat option" where
  "valof (Finite s m e) =
     Some ((if s then - 1 else 1) *
           (if 0 \<le> e then of_nat m * 2 ^ nat e else of_nat m / 2 ^ nat (- e)))"
| "valof x = None"

text \<open>
  The literal \<open>0.9\<close> of the source is the binary64 value \<open>0x1.ccccccccccccdp-1\<close>, that is
  \<open>8106479329266893 / 2\<^sup>5\<^sup>3\<close>.
\<close>

definition point_nine :: number where
  "point_nine = Finite False 8106479329266893 (- 53)"


section \<open>The dashboard: \<open>Dashboard\<close>\<close>

text \<open>
  Modelled from the spec: the interface \<open>User\<close> and the function \<open>fetchUserData\<close> are
  imported from \<open>../api/dashboard.api\<close>, which is not among the sources. The fields are
  the ones the component reads; \<open>None\<close> is a field that is \<open>null\<close> or \<open>undefined\<close>. The
  field \<open>age\<close> is a number, as the operand of \<open>*\<close> must be.
\<close>

record User =
  name :: "jsstring option"
  email :: "jsstring option"
  sex :: "jsstring option"
  pain_category :: "jsstring option"
  bmi :: "number option"
  age :: "number option"
  height :: "number option"

text \<open>What a JSX expression slot holds: a string or a number.\<close>

datatype child = Text jsstring | Num number

text \<open>\<open>userData?.field\<close> and \<open>value ?? fallback\<close>.\<close>

definition optional_chain :: "User option \<Rightarrow> (User \<Rightarrow> 'a option) \<Rightarrow> 'a option" where
  "optional_chain userData field = (case userData of None \<Rightarrow> None | Some u \<Rightarrow> field u)"

definition nullish :: "'a option \<Rightarrow> 'a \<Rightarrow> 'a" where
  "nullish v fallback = (case v of None \<Rightarrow> fallback | Some x \<Rightarrow> x)"

text \<open>The seven expression slots of the card "Patient Info", named by their labels.\<close>

record patient_info =
  Name :: child
  Email :: child
  Focus_Area :: child
  Mobility :: child
  BMI :: child
  Weight :: child
  Height :: child

definition weight_slot :: "User option \<Rightarrow> child" where
  "weight_slot userData =
     (case optional_chain userData age of
        None \<Rightarrow> Text (lit ''N/A'')
      | Some a \<Rightarrow> if truthy_number a then Num (js_mul a point_nine) else Text (lit ''N/A''))"

definition Dashboard :: "User option \<Rightarrow> patient_info" where
  "Dashboard userData =
     \<lparr>Name = nullish (map_option Text (optional_chain userData name)) (Text (lit ''N/A'')),
      Email = nullish (map_option Text (optional_chain userData email)) (Text (lit ''N/A'')),
      Focus_Area = nullish (map_option Text (optional_chain userData sex)) (Text (lit ''N/A'')),
      Mobility =
        nullish (map_option Text (optional_chain userData pain_category)) (Text (lit ''N/A'')),
      BMI = nullish (map_option Num (optional_chain userData bmi)) (Text (lit ''N/A'')),
      Weight = weight_slot userData,
      Height = nullish (map_option Num (optional_chain userData height)) (Text (lit ''N/A''))\<rparr>"

text \<open>
  The effect that runs on mount and when \<open>username\<close> changes. \<open>userData\<close> starts as \<open>null\<close>.
  The effect does nothing when \<open>username\<close> is undefined or empty; a promise that rejects
  throws at the \<open>await\<close>, before \<open>setUserData\<close>.
\<close>

datatype outcome = Rejected | Resolved "User option"

definition initial_userData :: "User option" where
  "initial_userData = None"

definition fetchData :: "(jsstring \<Rightarrow> outcome) \<Rightarrow> jsstring option \<Rightarrow> User option \<Rightarrow> User option" where
  "fetchData fetchUserData username userData =
     (case username of
        None \<Rightarrow> userData
      | Some u \<Rightarrow>
          if truthy_string u
          then (case fetchUserData u of Rejected \<Rightarrow> userData | Resolved data \<Rightarrow> data)
          else userData)"

definition placeholders :: patient_info where
  "placeholders =
     \<lparr>Name = Text (lit ''N/A''), Email = Text (lit ''N/A''), Focus_Area = Text (lit ''N/A''),
      Mobility = Text (lit ''N/A''), BMI = Text (lit ''N/A''), Weight = Text (lit ''N/A''),
      Height = Text (lit ''N/A'')\<rparr>"


section \<open>Properties of the chat page\<close>

lemma all_ws_dropWhile: "(\<forall>x \<in> set (dropWhile P s). P x) \<longleftrightarrow> (\<forall>c \<in> set s. P c)"
  by (induction s) auto

lemma trim_empty_iff: "trim s = [] \<longleftrightarrow> (\<forall>c \<in> set s. is_ws c)"
  by (simp add: trim_def all_ws_dropWhile)

lemma lit_simps:
  "lit [] = []"
  "lit (c # cs) = of_nat (of_char c) # lit cs"
  by (simp_all add: lit_def)

lemma messages_deferred:
  "messages (deferred p s) =
     messages s @ [\<lparr>type = Bot, content = reply (captured_input p),
                    timestamp = captured_timestamp p\<rparr>]"
  by (simp add: deferred_def)

lemma prefix_step: "prefix (messages s) (messages (step s e))"
proof (cases e)
  case (Change v)
  then show ?thesis by simp
next
  case (Click now)
  then show ?thesis by (simp add: handleSend_def)
next
  case (KeyDown key now)
  then show ?thesis by (simp add: handleKeyDown_def handleSend_def)
next
  case (Expire i)
  then show ?thesis by (simp add: messages_deferred)
qed

lemma prefix_run: "prefix (messages s) (messages (run s evs))"
proof (induction evs arbitrary: s)
  case Nil
  show ?case by (simp add: run_def)
next
  case (Cons e evs)
  have "prefix (messages s) (messages (step s e))"
    by (rule prefix_step)
  also have "prefix (messages (step s e)) (messages (run (step s e) evs))"
    by (rule Cons.IH)
  finally show ?case by (simp add: run_def)
qed

lemma run_append: "run s (evs @ later) = run (run s evs) later"
  by (simp add: run_def)


text \<open>
  C1 as the specification words it, with the ASCII apostrophe in the reply text, fails:
  typing \<open>a\<close>, pressing Send at 09:30 and letting the timer expire leaves a transcript
  whose second message is not that text.
\<close>

theorem reply_ascii_apostrophe_counterexample:
  "truthy_string (trim (lit ''a'')) \<and>
   messages (run initial_chat [Change (lit ''a''), Click (lit ''09:30''), Expire 0]) \<noteq>
     [\<lparr>type = User, content = lit ''a'', timestamp = lit ''09:30''\<rparr>,
      \<lparr>type = Bot, content = ascii_reply (lit ''a''), timestamp = lit ''09:30''\<rparr>]"
  by (simp add: run_def initial_chat_def handleSend_def truthy_string_def trim_def is_ws_def
      lit_simps deferred_def reply_def ascii_reply_def)

text \<open>
  C1, amended: when the trimmed input buffer is not empty, \<open>handleSend\<close> appends exactly one
  message, the user message with the buffer's text, and schedules exactly one callback;
  that callback, run on whatever the state \<open>s'\<close> is by then, appends exactly one message,
  the bot message whose text is, code unit by code unit, \<open>Here\<close>, U+2019,
  \<open>s an exercise tailored for\<close>, a space, U+0022, the submitted text, U+0022 and \<open>!\<close>. When the timer expires next, the transcript has grown by
  these two messages and the callback is no longer pending.
\<close>

theorem handleSend_user_then_bot:
  assumes "truthy_string (trim (userInput s))"
  shows "messages (handleSend now s) =
           messages s @ [\<lparr>type = User, content = userInput s, timestamp = now\<rparr>] \<and>
         timers (handleSend now s) =
           timers s @ [\<lparr>captured_input = userInput s, captured_timestamp = now\<rparr>] \<and>
         messages (deferred \<lparr>captured_input = userInput s, captured_timestamp = now\<rparr> s') =
           messages s' @
           [\<lparr>type = Bot,
             content =
               [0x0048, 0x0065, 0x0072, 0x0065, 0x2019, 0x0073, 0x0020, 0x0061, 0x006E,
                0x0020, 0x0065, 0x0078, 0x0065, 0x0072, 0x0063, 0x0069, 0x0073, 0x0065,
                0x0020, 0x0074, 0x0061, 0x0069, 0x006C, 0x006F, 0x0072, 0x0065, 0x0064,
                0x0020, 0x0066, 0x006F, 0x0072, 0x0020, 0x0022] @ userInput s @ [0x0022, 0x0021],
             timestamp = now\<rparr>] \<and>
         messages (run s [Click now, Expire (length (timers s))]) =
           messages s @
           [\<lparr>type = User, content = userInput s, timestamp = now\<rparr>,
            \<lparr>type = Bot,
             content =
               [0x0048, 0x0065, 0x0072, 0x0065, 0x2019, 0x0073, 0x0020, 0x0061, 0x006E,
                0x0020, 0x0065, 0x0078, 0x0065, 0x0072, 0x0063, 0x0069, 0x0073, 0x0065,
                0x0020, 0x0074, 0x0061, 0x0069, 0x006C, 0x006F, 0x0072, 0x0065, 0x0064,
                0x0020, 0x0066, 0x006F, 0x0072, 0x0020, 0x0022] @ userInput s @ [0x0022, 0x0021],
             timestamp = now\<rparr>] \<and>
         timers (run s [Click now, Expire (length (timers s))]) = timers s"
  using assms by (simp add: handleSend_def deferred_def run_def nth_append reply_def lit_simps)

theorem handleSend_user_then_bot_witness:
  "truthy_string (trim (lit ''squats'')) \<and>
   messages (handleSend (lit ''09:30'') (initial_chat\<lparr>userInput := lit ''squats''\<rparr>)) =
     [\<lparr>type = User, content = lit ''squats'', timestamp = lit ''09:30''\<rparr>] \<and>
   timers (handleSend (lit ''09:30'') (initial_chat\<lparr>userInput := lit ''squats''\<rparr>)) =
     [\<lparr>captured_input = lit ''squats'', captured_timestamp = lit ''09:30''\<rparr>] \<and>
   messages (deferred \<lparr>captured_input = lit ''squats'', captured_timestamp = lit ''09:30''\<rparr>
       initial_chat) =
     [\<lparr>type = Bot,
       content =
         [0x0048, 0x0065, 0x0072, 0x0065, 0x2019, 0x0073, 0x0020, 0x0061, 0x006E,
          0x0020, 0x0065, 0x0078, 0x0065, 0x0072, 0x0063, 0x0069, 0x0073, 0x0065,
          0x0020, 0x0074, 0x0061, 0x0069, 0x006C, 0x006F, 0x0072, 0x0065, 0x0064,
          0x0020, 0x0066, 0x006F, 0x0072, 0x0020, 0x0022, 0x0073, 0x0071, 0x0075,
          0x0061, 0x0074, 0x0073, 0x0022, 0x0021],
       timestamp = lit ''09:30''\<rparr>]"
proof -
  have h: "truthy_string (trim (userInput (initial_chat\<lparr>userInput := lit ''squats''\<rparr>)))"
    by (simp add: truthy_string_def trim_def is_ws_def lit_simps)
  show ?thesis
    using h handleSend_user_then_bot [OF h, of "lit ''09:30''" initial_chat]
    by (simp add: initial_chat_def lit_simps)
qed

text \<open>
  C2: when the trimmed input buffer is empty (the buffer is empty or holds white space
  only), \<open>handleSend\<close> returns the state it was given: the transcript, the pending timers
  and the buffer itself are unchanged. The model has no error value, as the source has
  no \<open>throw\<close> on this path; the same holds when the call comes from the Enter key.
\<close>

theorem handleSend_blank_noop:
  assumes "trim (userInput s) = []"
  shows "handleSend now s = s \<and> handleKeyDown (lit ''Enter'') now s = s \<and>
         messages (handleSend now s) = messages s \<and> timers (handleSend now s) = timers s \<and>
         (\<forall>c \<in> set (userInput s). is_ws c)"
  using assms trim_empty_iff [of "userInput s"]
  by (simp add: handleSend_def handleKeyDown_def truthy_string_def)

theorem handleSend_blank_noop_witness:
  "trim [0x0020, 0x0009, 0x00A0] = [] \<and> trim [] = [] \<and>
   handleSend (lit ''09:30'') (initial_chat\<lparr>userInput := [0x0020, 0x0009, 0x00A0]\<rparr>) =
     initial_chat\<lparr>userInput := [0x0020, 0x0009, 0x00A0]\<rparr> \<and>
   handleSend (lit ''09:30'') initial_chat = initial_chat"
proof -
  have h: "trim (userInput (initial_chat\<lparr>userInput := [0x0020, 0x0009, 0x00A0]\<rparr>)) = []"
    by (simp add: trim_def is_ws_def)
  have e: "trim (userInput initial_chat) = []"
    by (simp add: initial_chat_def trim_def)
  show ?thesis
    using h e handleSend_blank_noop [OF h, of "lit ''09:30''"]
      handleSend_blank_noop [OF e, of "lit ''09:30''"]
    by (simp add: initial_chat_def)
qed

text \<open>
  C3: the transcript is append-only and keeps the order of insertion. Whatever events
  happen (typing, submissions, and the expiry of pending timers in any order), the
  transcript before them is a prefix of the transcript after them; so is the transcript
  at any moment in between.
\<close>

theorem transcript_append_only:
  "prefix (messages s) (messages (run s evs)) \<and>
   prefix (messages (run s evs)) (messages (run s (evs @ later)))"
  by (simp add: prefix_run run_append)

theorem transcript_append_only_witness:
  "prefix [\<lparr>type = User, content = lit ''a'', timestamp = lit ''09:30''\<rparr>]
     (messages (run (run initial_chat [Change (lit ''a''), Click (lit ''09:30'')])
        [Change (lit ''b''), KeyDown (lit ''Enter'') (lit ''09:31''), Expire 1, Expire 0])) \<and>
   map type (messages (run initial_chat
      [Change (lit ''a''), Click (lit ''09:30''), Change (lit ''b''),
       KeyDown (lit ''Enter'') (lit ''09:31''), Expire 1, Expire 0])) = [User, User, Bot, Bot]"
proof -
  have m: "messages (run initial_chat [Change (lit ''a''), Click (lit ''09:30'')]) =
      [\<lparr>type = User, content = lit ''a'', timestamp = lit ''09:30''\<rparr>]"
    by (simp add: run_def initial_chat_def handleSend_def truthy_string_def trim_def
        is_ws_def lit_simps)
  have r: "map type (messages (run initial_chat
      [Change (lit ''a''), Click (lit ''09:30''), Change (lit ''b''),
       KeyDown (lit ''Enter'') (lit ''09:31''), Expire 1, Expire 0])) = [User, User, Bot, Bot]"
    by (simp add: run_def initial_chat_def handleSend_def handleKeyDown_def truthy_string_def
        trim_def is_ws_def lit_simps deferred_def)
  show ?thesis
    using m r transcript_append_only [of "run initial_chat [Change (lit ''a''), Click (lit ''09:30'')]"
        "[Change (lit ''b''), KeyDown (lit ''Enter'') (lit ''09:31''), Expire 1, Expire 0]" "[]"]
    by simp
qed

text \<open>
  C8: for a submission with a non-empty trimmed text, the user message carries the
  timestamp \<open>now\<close> read at the call of \<open>handleSend\<close>, and the callback scheduled by that
  call appends a message with the same timestamp on whatever state \<open>s'\<close> it runs, that
  is whenever the delay elapses.
\<close>

theorem deferred_timestamp_is_submission_timestamp:
  assumes "truthy_string (trim (userInput s))"
  shows "timestamp (last (messages (handleSend now s))) = now \<and>
         timestamp (last (messages (deferred (last (timers (handleSend now s))) s'))) =
           timestamp (last (messages (handleSend now s)))"
  using assms by (simp add: handleSend_def deferred_def)

theorem deferred_timestamp_is_submission_timestamp_witness:
  "truthy_string (trim (lit ''knee pain'')) \<and>
   map timestamp (messages (run initial_chat
      [Change (lit ''knee pain''), Click (lit ''09:30''), Change (lit ''x''),
       Click (lit ''09:31''), Expire 0])) =
     [lit ''09:30'', lit ''09:31'', lit ''09:30''] \<and>
   timestamp (last (messages (deferred
      (last (timers (handleSend (lit ''09:30'') (initial_chat\<lparr>userInput := lit ''knee pain''\<rparr>))))
      initial_chat))) = lit ''09:30''"
proof -
  have h: "truthy_string (trim (userInput (initial_chat\<lparr>userInput := lit ''knee pain''\<rparr>)))"
    by (simp add: truthy_string_def trim_def is_ws_def lit_simps)
  have r: "map timestamp (messages (run initial_chat
      [Change (lit ''knee pain''), Click (lit ''09:30''), Change (lit ''x''),
       Click (lit ''09:31''), Expire 0])) =
     [lit ''09:30'', lit ''09:31'', lit ''09:30'']"
    by (simp add: run_def initial_chat_def handleSend_def truthy_string_def trim_def
        is_ws_def lit_simps deferred_def)
  show ?thesis
    using h r deferred_timestamp_is_submission_timestamp [OF h, of "lit ''09:30''" initial_chat]
    by simp
qed

text \<open>
  C9: for a submission with a non-empty trimmed text, \<open>handleSend\<close> appends the user
  message with the submitted text and leaves the input buffer empty; the text of the
  message that the scheduled callback appends is the template's code units around the
  submitted text, not around the empty buffer, also when the callback runs on the state
  whose buffer has been cleared.
\<close>

theorem handleSend_clears_buffer_reply_keeps_text:
  assumes "truthy_string (trim (userInput s))"
  shows "userInput (handleSend now s) = [] \<and>
         content (last (messages (handleSend now s))) = userInput s \<and>
         content (last (messages (deferred (last (timers (handleSend now s))) s'))) =
           [0x0048, 0x0065, 0x0072, 0x0065, 0x2019, 0x0073, 0x0020, 0x0061, 0x006E,
            0x0020, 0x0065, 0x0078, 0x0065, 0x0072, 0x0063, 0x0069, 0x0073, 0x0065,
            0x0020, 0x0074, 0x0061, 0x0069, 0x006C, 0x006F, 0x0072, 0x0065, 0x0064,
            0x0020, 0x0066, 0x006F, 0x0072, 0x0020, 0x0022] @ userInput s @ [0x0022, 0x0021] \<and>
         content (last (messages (step (handleSend now s) (Expire (length (timers s)))))) =
           [0x0048, 0x0065, 0x0072, 0x0065, 0x2019, 0x0073, 0x0020, 0x0061, 0x006E,
            0x0020, 0x0065, 0x0078, 0x0065, 0x0072, 0x0063, 0x0069, 0x0073, 0x0065,
            0x0020, 0x0074, 0x0061, 0x0069, 0x006C, 0x006F, 0x0072, 0x0065, 0x0064,
            0x0020, 0x0066, 0x006F, 0x0072, 0x0020, 0x0022] @ userInput s @ [0x0022, 0x0021]"
  using assms by (simp add: handleSend_def deferred_def nth_append reply_def lit_simps)

theorem handleSend_clears_buffer_reply_keeps_text_witness:
  "truthy_string (trim (lit '' lunges '')) \<and>
   userInput (handleSend (lit ''09:30'') (initial_chat\<lparr>userInput := lit '' lunges ''\<rparr>)) = [] \<and>
   content (last (messages (handleSend (lit ''09:30'')
      (initial_chat\<lparr>userInput := lit '' lunges ''\<rparr>)))) = lit '' lunges '' \<and>
   content (last (messages (step (handleSend (lit ''09:30'')
      (initial_chat\<lparr>userInput := lit '' lunges ''\<rparr>)) (Expire 0)))) =
     [0x0048, 0x0065, 0x0072, 0x0065, 0x2019, 0x0073, 0x0020, 0x0061, 0x006E, 0x0020,
      0x0065, 0x0078, 0x0065, 0x0072, 0x0063, 0x0069, 0x0073, 0x0065, 0x0020, 0x0074,
      0x0061, 0x0069, 0x006C, 0x006F, 0x0072, 0x0065, 0x0064, 0x0020, 0x0066, 0x006F,
      0x0072, 0x0020, 0x0022, 0x0020, 0x006C, 0x0075, 0x006E, 0x0067, 0x0065, 0x0073,
      0x0020, 0x0022, 0x0021] \<and>
   content (last (messages (step (handleSend (lit ''09:30'')
      (initial_chat\<lparr>userInput := lit '' lunges ''\<rparr>)) (Expire 0)))) \<noteq>
     [0x0048, 0x0065, 0x0072, 0x0065, 0x2019, 0x0073, 0x0020, 0x0061, 0x006E, 0x0020,
      0x0065, 0x0078, 0x0065, 0x0072, 0x0063, 0x0069, 0x0073, 0x0065, 0x0020, 0x0074,
      0x0061, 0x0069, 0x006C, 0x006F, 0x0072, 0x0065, 0x0064, 0x0020, 0x0066, 0x006F,
      0x0072, 0x0020, 0x0022, 0x0022, 0x0021]"
proof -
  have h: "truthy_string (trim (userInput (initial_chat\<lparr>userInput := lit '' lunges ''\<rparr>)))"
    by (simp add: truthy_string_def trim_def is_ws_def lit_simps)
  show ?thesis
    using h handleSend_clears_buffer_reply_keeps_text [OF h, of "lit ''09:30''" initial_chat]
    by (simp add: initial_chat_def lit_simps)
qed


section \<open>Properties of the exercise cards\<close>

text \<open>
  C4: for every card index and every flip state, two calls of \<open>handleFlip\<close> on the index
  give back the flipped state the index had before them.
\<close>

theorem handleFlip_twice:
  "flipped (handleFlip i (handleFlip i cards)) i = flipped cards i \<and>
   flipped (handleFlip i cards) i = (\<not> flipped cards i)"
  by (simp add: handleFlip_def flipped_def)

theorem handleFlip_twice_witness:
  "flipped (handleFlip 2 (handleFlip 2 Map.empty)) 2 = False \<and>
   flipped (handleFlip 2 Map.empty) 2 = True \<and>
   flipped (handleFlip 2 (handleFlip 2 [2 \<mapsto> True])) 2 = True"
  using handleFlip_twice [of 2 Map.empty] handleFlip_twice [of 2 "[2 \<mapsto> True]"]
  by (simp add: handleFlip_def flipped_def)

text \<open>
  C5: for distinct card indices \<open>i\<close> and \<open>j\<close>, \<open>handleFlip i\<close> leaves the entry of \<open>j\<close> as it
  was, and with it the flipped state of \<open>j\<close>.
\<close>

theorem handleFlip_frame:
  assumes "j \<noteq> i"
  shows "handleFlip i cards j = cards j \<and> flipped (handleFlip i cards) j = flipped cards j"
  using assms by (simp add: handleFlip_def flipped_def)

theorem handleFlip_frame_witness:
  "(1::nat) \<noteq> 0 \<and> handleFlip 0 [1 \<mapsto> True] 1 = Some True \<and>
   flipped (handleFlip 0 [1 \<mapsto> True]) 1 = True \<and>
   handleFlip 0 [1 \<mapsto> True] 3 = None \<and> flipped (handleFlip 0 [1 \<mapsto> True]) 3 = False"
proof -
  have a: "(1::nat) \<noteq> 0" and b: "(3::nat) \<noteq> 0"
    by simp_all
  show ?thesis
    using handleFlip_frame [OF a, of "[1 \<mapsto> True]"] handleFlip_frame [OF b, of "[1 \<mapsto> True]"]
    by (simp add: flipped_def)
qed


section \<open>Properties of the numbers\<close>

text \<open>The recursions on a numeral, as rewrite rules that \<open>simp\<close> can run.\<close>

lemma bit_length_numeral:
  "bit_length 0 = 0"
  "bit_length (Suc 0) = Suc 0"
  "bit_length (numeral k) = Suc (bit_length (numeral k div 2))"
  by (simp_all add: bit_length.simps [of 0] bit_length.simps [of "Suc 0"]
      bit_length.simps [of "numeral k"])

lemma strip_numeral:
  "strip 0 e = (0, 0)"
  "strip (Suc 0) e = (Suc 0, e)"
  "strip (numeral k) e =
     (if even (numeral k :: nat) then strip (numeral k div 2) (e + 1) else (numeral k, e))"
  by (simp_all add: strip.simps [of 0] strip.simps [of "Suc 0"] strip.simps [of "numeral k"])

lemmas eval_number = bit_length_numeral strip_numeral round_to_double_def
  finite_or_infinity_def number_of_int_def point_nine_def Let_def

text \<open>
  \<open>point_nine\<close> is a 53-bit significand and lies less than half a unit in the last place
  (\<open>2\<^sup>-\<^sup>5\<^sup>4\<close>) from 9/10: it is the binary64 value of the literal \<open>0.9\<close>.
\<close>

lemma point_nine_nearest:
  "bit_length 8106479329266893 = 53 \<and>
   valof point_nine = Some (8106479329266893 / 2 ^ 53) \<and>
   \<bar>8106479329266893 / 2 ^ 53 - 9 / 10 :: rat\<bar> < 1 / 2 ^ 54"
  by (simp add: point_nine_def bit_length_numeral)

text \<open>
  Ties go to the even significand, half of the least subnormal goes to zero, the
  largest finite number stays, and what rounds up to \<open>2\<^sup>1\<^sup>0\<^sup>2\<^sup>4\<close> is infinite. The product is
  the rounded one: \<open>21 * 0.9\<close> is \<open>18.900000000000002\<close>
  (\<open>0x1.2e66666666667p+4\<close>), not the binary64 value nearest to 18.9, while \<open>80 * 0.9\<close> is
  exactly 72.
\<close>

lemma js_mul_21: "js_mul (number_of_int 21) point_nine = Finite False 5319877059831399 (- 48)"
  by (simp add: eval_number)

lemma round_to_double_edges:
  "number_of_int (2 ^ 53 + 1) = Finite False 1 53"
  "number_of_int (2 ^ 53 + 3) = Finite False 2251799813685249 2"
  "round_to_double False 1 (- 1075) = Finite False 0 0"
  "round_to_double False 9007199254740991 971 = Finite False 9007199254740991 971"
  "round_to_double False 18014398509481983 970 = Infinity False"
  by (simp_all add: eval_number)

lemma js_mul_80: "js_mul (number_of_int 80) point_nine = number_of_int 72"
  by (simp add: eval_number)

lemma number_of_int_0: "number_of_int 0 = Finite False 0 0"
  by (simp add: eval_number)

lemma valof_72: "valof (number_of_int 72) = Some 72"
  by (simp add: eval_number)


section \<open>Properties of the dashboard\<close>

lemma Dashboard_None: "Dashboard None = placeholders"
  by (simp add: Dashboard_def placeholders_def weight_slot_def optional_chain_def nullish_def)

lemma weight_slot_Some:
  "weight_slot (Some u) =
     (case age u of None \<Rightarrow> Text (lit ''N/A'')
      | Some a \<Rightarrow> if truthy_number a then Num (js_mul a point_nine) else Text (lit ''N/A''))"
  by (simp add: weight_slot_def optional_chain_def)

lemma Weight_Dashboard: "Weight (Dashboard userData) = weight_slot userData"
  by (simp add: Dashboard_def)

text \<open>
  A rejected fetch on the freshly mounted component, and a component without a
  \<open>username\<close>, show the placeholders as well.
\<close>

lemma Dashboard_rejected:
  "fetchUserData username = Rejected \<Longrightarrow>
   Dashboard (fetchData fetchUserData (Some username) initial_userData) = placeholders"
  by (simp add: fetchData_def initial_userData_def Dashboard_None)

lemma Dashboard_no_username:
  "Dashboard (fetchData fetchUserData None initial_userData) = placeholders"
  by (simp add: fetchData_def initial_userData_def Dashboard_None)

text \<open>
  C6 as the specification words it fails: a profile whose \<open>age\<close> is present and is 0 does
  not show \<open>0 * 0.9\<close> as its weight.
\<close>

theorem weight_age_zero_counterexample:
  "age \<lparr>name = Some (lit ''Ann''), email = Some (lit ''ann@example.org''),
        sex = Some (lit ''F''), pain_category = Some (lit ''knee''),
        bmi = Some (number_of_int 22), age = Some (number_of_int 0),
        height = Some (number_of_int 170)\<rparr> = Some (number_of_int 0) \<and>
   Weight (Dashboard (Some
       \<lparr>name = Some (lit ''Ann''), email = Some (lit ''ann@example.org''),
        sex = Some (lit ''F''), pain_category = Some (lit ''knee''),
        bmi = Some (number_of_int 22), age = Some (number_of_int 0),
        height = Some (number_of_int 170)\<rparr>)) \<noteq> Num (js_mul (number_of_int 0) point_nine)"
  by (simp add: Weight_Dashboard weight_slot_Some number_of_int_0)

text \<open>
  C6, amended: for every profile whose \<open>age\<close> is present and truthy (not \<open>0\<close>, \<open>-0\<close> or
  \<open>NaN\<close>), the weight shown is the number \<open>age * 0.9\<close>; for the age 80 it is the number 72.
\<close>

theorem weight_is_age_times_point_nine:
  assumes "age u = Some a" and "truthy_number a"
  shows "Weight (Dashboard (Some u)) = Num (js_mul a point_nine) \<and>
         (a = number_of_int 80 \<longrightarrow> Weight (Dashboard (Some u)) = Num (number_of_int 72))"
proof -
  have w: "Weight (Dashboard (Some u)) = Num (js_mul a point_nine)"
    using assms by (simp add: Weight_Dashboard weight_slot_Some)
  have "Weight (Dashboard (Some u)) = Num (number_of_int 72)" if "a = number_of_int 80"
    using w that by (simp add: js_mul_80)
  with w show ?thesis by blast
qed

theorem weight_is_age_times_point_nine_witness:
  "truthy_number (number_of_int 80) \<and>
   Weight (Dashboard (Some
       \<lparr>name = Some (lit ''Ann''), email = Some (lit ''ann@example.org''),
        sex = Some (lit ''F''), pain_category = Some (lit ''knee''),
        bmi = Some (number_of_int 22), age = Some (number_of_int 80),
        height = Some (number_of_int 170)\<rparr>)) = Num (number_of_int 72) \<and>
   valof (number_of_int 72) = Some 72"
proof -
  have t: "truthy_number (number_of_int 80)"
    by (simp add: eval_number)
  have a: "age \<lparr>name = Some (lit ''Ann''), email = Some (lit ''ann@example.org''),
        sex = Some (lit ''F''), pain_category = Some (lit ''knee''),
        bmi = Some (number_of_int 22), age = Some (number_of_int 80),
        height = Some (number_of_int 170)\<rparr> = Some (number_of_int 80)"
    by simp
  show ?thesis
    using t weight_is_age_times_point_nine [OF a t] by (simp add: valof_72 js_mul_80)
qed

text \<open>
  C7: when \<open>fetchUserData\<close> resolves to \<open>null\<close>, each of the seven slots of the card shows
  \<open>N/A\<close>; the card is the one of the freshly mounted component, whose \<open>userData\<close> is \<open>null\<close>,
  so nothing on it tells a failed fetch apart.
\<close>

theorem Dashboard_null_profile:
  assumes "truthy_string username" and "fetchUserData username = Resolved None"
  shows "Dashboard (fetchData fetchUserData (Some username) userData) = placeholders \<and>
         Dashboard (fetchData fetchUserData (Some username) userData) =
           Dashboard initial_userData"
  using assms by (simp add: fetchData_def initial_userData_def Dashboard_None)

theorem Dashboard_null_profile_witness:
  "truthy_string (lit ''ann'') \<and>
   Dashboard (fetchData (\<lambda>u. if u = lit ''ann'' then Resolved None else Rejected)
      (Some (lit ''ann'')) initial_userData) =
     \<lparr>Name = Text (lit ''N/A''), Email = Text (lit ''N/A''), Focus_Area = Text (lit ''N/A''),
      Mobility = Text (lit ''N/A''), BMI = Text (lit ''N/A''), Weight = Text (lit ''N/A''),
      Height = Text (lit ''N/A'')\<rparr>"
proof -
  have t: "truthy_string (lit ''ann'')"
    by (simp add: truthy_string_def lit_simps)
  show ?thesis
    using t Dashboard_null_profile [where username = "lit ''ann''"
        and fetchUserData = "\<lambda>u. if u = lit ''ann'' then Resolved None else Rejected"
        and userData = initial_userData]
    by (simp add: placeholders_def)
qed

text \<open>
  C10: for a profile whose \<open>age\<close> is present and is zero (\<open>0\<close>, or \<open>-0\<close>), the weight slot
  shows the placeholder \<open>N/A\<close>, not the number 0.
\<close>

theorem weight_age_zero_placeholder:
  assumes "age u = Some (Finite s 0 0)"
  shows "Weight (Dashboard (Some u)) = Text (lit ''N/A'') \<and>
         Weight (Dashboard (Some u)) \<noteq> Num (number_of_int 0) \<and>
         number_of_int 0 = Finite False 0 0"
  using assms by (simp add: Weight_Dashboard weight_slot_Some number_of_int_0)

theorem weight_age_zero_placeholder_witness:
  "Weight (Dashboard (Some
       \<lparr>name = Some (lit ''Bob''), email = None, sex = None, pain_category = None,
        bmi = None, age = Some (number_of_int 0), height = None\<rparr>)) = Text (lit ''N/A'')"
proof -
  have a: "age \<lparr>name = Some (lit ''Bob''), email = None, sex = None, pain_category = None,
        bmi = None, age = Some (number_of_int 0), height = None\<rparr> = Some (Finite False 0 0)"
    by (simp add: number_of_int_0)
  show ?thesis
    using weight_age_zero_placeholder [OF a] by (simp add: number_of_int_0)
qed

end
